theory Spec2Isabelle
  imports Main "HOL-Library.Sublist"
begin

section \<open>The GovSG callback service\<close>

text \<open>
  A shallow embedding of \<^verbatim>\<open>backend/src/govsg/services/govsg-callback.service.ts\<close>:
  the webhook dispatcher \<^verbatim>\<open>parseWebhook\<close>, the status handler
  \<^verbatim>\<open>parseTemplateMessageWebhook\<close> and the inbound-message handler
  \<^verbatim>\<open>parseUserMessageWebhook\<close> with \<^verbatim>\<open>shouldSendAutoReply\<close>,
  \<^verbatim>\<open>matchAnyRegex\<close> and \<^verbatim>\<open>sendAutoReply\<close>.

  Conventions. A JavaScript string is a \<^typ>\<open>string\<close>: one \<^typ>\<open>char\<close> is one
  UTF-16 code unit, so the model covers the texts whose code units are below 256 and
  \<^const>\<open>length\<close> is the \<^verbatim>\<open>length\<close> property. A handler returns the exception it
  throws (its rejected promise) as an optional error, \<open>None\<close> when it returns
  normally, next to the state it leaves behind. \<^verbatim>\<open>new Date()\<close> is a parameter \<open>now\<close>. The two
  Sequelize tables are explicit state, passed in and returned. An update started with
  \<^verbatim>\<open>void instance.update(...)\<close> is taken to reach its table. Calls of the logger
  are modelled only where the entry carries the text of an inbound message.
\<close>

subsection \<open>Errors\<close>

text \<open>
  The service throws \<^verbatim>\<open>UnexpectedWebhookError\<close> (with a message) and a plain
  \<^verbatim>\<open>Error\<close>; destructuring \<^verbatim>\<open>undefined\<close> makes the runtime throw a
  \<^verbatim>\<open>TypeError\<close>.
\<close>

datatype error = UnexpectedWebhookError string | Error string | TypeError

subsection \<open>Webhook payloads\<close>

text \<open>
  Modelled from the spec: the declarations of
  \<^verbatim>\<open>@shared/clients/whatsapp-client.class/types\<close> are not part of the sources. The
  shapes are those of the wire format \<^verbatim>\<open>{ statuses: [{ id, status, errors?: [{code,
  title, details, href}] }] }\<close> and \<^verbatim>\<open>{ messages: [{ id, type, text?: { body } }],
  contacts: [{ wa_id }] }\<close>, together with the key \<^verbatim>\<open>errors\<close> that the service
  reads on the body itself. The members of the two enumerations are the ones the service
  names; \<open>unlisted\<close> and \<open>other_type\<close> stand for any other value that arrives on the wire.
\<close>

record WhatsAppWebhookError =
  code :: int
  title :: string
  details :: string
  href :: string

datatype WhatsAppMessageStatus =
  warning | failed | sent | delivered | read | deleted | unlisted string

record WhatsAppTemplateMessageWebhookStatus =
  st_id :: string
  st_status :: WhatsAppMessageStatus
  st_errors :: "WhatsAppWebhookError list option"

datatype WhatsappWebhookMessageType = text_type | other_type string

record WhatsAppWebhookMessage =
  msg_id :: string
  msg_type :: WhatsappWebhookMessageType
  msg_text :: "string option"

record WhatsAppContact =
  wa_id :: string

text \<open>
  An object payload: each of the four keys is absent (\<open>None\<close>) or holds an array. Keys
  the service never looks at are left out; an array payload is an object with none of the
  four keys.
\<close>

record WebhookBody =
  statuses :: "WhatsAppTemplateMessageWebhookStatus list option"
  errors :: "WhatsAppWebhookError list option"
  messages :: "WhatsAppWebhookMessage list option"
  contacts :: "WhatsAppContact list option"

text \<open>The \<^verbatim>\<open>unknown\<close> argument of \<^verbatim>\<open>parseWebhook\<close>.\<close>

datatype payload =
  JUndefined | JNull | JBoolean bool | JNumber int | JString string | JObject WebhookBody

fun falsy :: "payload \<Rightarrow> bool" where
  "falsy JUndefined = True"
| "falsy JNull = True"
| "falsy (JBoolean b) = (\<not> b)"
| "falsy (JNumber n) = (n = 0)"
| "falsy (JString s) = (s = [])"
| "falsy (JObject b) = False"

fun typeof :: "payload \<Rightarrow> string" where
  "typeof JUndefined = ''undefined''"
| "typeof JNull = ''object''"
| "typeof (JBoolean b) = ''boolean''"
| "typeof (JNumber n) = ''number''"
| "typeof (JString s) = ''string''"
| "typeof (JObject b) = ''object''"

subsection \<open>Message records and the two tables\<close>

text \<open>
  Modelled from the spec: the models \<^verbatim>\<open>GovsgMessage\<close> and
  \<^verbatim>\<open>GovsgMessageTransactional\<close> are not part of the sources. A row has the mutable
  fields the spec lists; a table is keyed by \<^verbatim>\<open>serviceProviderMessageId\<close>, which is
  unique in it. The local status vocabulary is the type parameter \<open>'s\<close>.
\<close>

type_synonym date = nat

record 's GovsgMessage =
  status :: 's
  sentAt :: "date option"
  deliveredAt :: "date option"
  readAt :: "date option"
  deletedAt :: "date option"
  erroredAt :: "date option"
  errorCode :: "string option"
  errorDescription :: "string option"

type_synonym 's table = "string \<rightharpoonup> 's GovsgMessage"

definition findOne :: "'s table \<Rightarrow> string \<Rightarrow> 's GovsgMessage option" where
  "findOne tbl messageId = tbl messageId"

text \<open>One entry of a \<^verbatim>\<open>fieldOpts\<close> object literal.\<close>

datatype 's field =
  Status 's | SentAt date | DeliveredAt date | ReadAt date | DeletedAt date
| ErroredAt date | ErrorCode string | ErrorDescription string

fun assign :: "'s field \<Rightarrow> 's GovsgMessage \<Rightarrow> 's GovsgMessage" where
  "assign (Status v) r = r\<lparr>status := v\<rparr>"
| "assign (SentAt t) r = r\<lparr>sentAt := Some t\<rparr>"
| "assign (DeliveredAt t) r = r\<lparr>deliveredAt := Some t\<rparr>"
| "assign (ReadAt t) r = r\<lparr>readAt := Some t\<rparr>"
| "assign (DeletedAt t) r = r\<lparr>deletedAt := Some t\<rparr>"
| "assign (ErroredAt t) r = r\<lparr>erroredAt := Some t\<rparr>"
| "assign (ErrorCode c) r = r\<lparr>errorCode := Some c\<rparr>"
| "assign (ErrorDescription d) r = r\<lparr>errorDescription := Some d\<rparr>"

text \<open>
  \<^verbatim>\<open>instance?.update(fieldOpts, whereOpts)\<close>: nothing happens on \<^verbatim>\<open>null\<close>;
  otherwise the fields of the literal are written to the row of the instance.
\<close>

definition update :: "'s GovsgMessage option \<Rightarrow> 's field list \<Rightarrow> string \<Rightarrow> 's table \<Rightarrow> 's table" where
  "update inst fieldOpts messageId tbl =
     (case inst of None \<Rightarrow> tbl | Some r \<Rightarrow> tbl(messageId \<mapsto> fold assign fieldOpts r))"

subsection \<open>Number to string\<close>

fun digits :: "nat \<Rightarrow> string" where
  "digits n =
     (if n < 10 then [''0123456789'' ! n]
      else digits (n div 10) @ [''0123456789'' ! (n mod 10)])"

declare digits.simps [simp del]

text \<open>\<^verbatim>\<open>code.toString()\<close> of an integral number.\<close>

definition toString :: "int \<Rightarrow> string" where
  "toString i = (if i < 0 then CHR ''-'' # digits (nat (- i)) else digits (nat i))"

subsection \<open>The status handler\<close>

text \<open>
  \<^verbatim>\<open>parseTemplateMessageWebhook\<close>. The parameter \<open>mapper\<close> is
  \<^verbatim>\<open>govsgMessageStatusMapper\<close> of \<^verbatim>\<open>@core/constants\<close>, which is not part of the
  sources. \<open>gm\<close> is the table of \<^verbatim>\<open>GovsgMessage\<close>, \<open>gmt\<close> the one of
  \<^verbatim>\<open>GovsgMessageTransactional\<close>. The result is the error thrown, if any, with the
  two tables as they are when the call ends.
  The error details are read from \<^verbatim>\<open>body.errors\<close>, the status and the id from
  \<^verbatim>\<open>body.statuses[0]\<close>.
\<close>

definition parseTemplateMessageWebhook ::
  "(WhatsAppMessageStatus \<Rightarrow> 's) \<Rightarrow> date \<Rightarrow> WebhookBody \<Rightarrow> 's table \<Rightarrow> 's table
     \<Rightarrow> error option \<times> 's table \<times> 's table" where
  "parseTemplateMessageWebhook mapper now body gm gmt =
    (case statuses body of
       None \<Rightarrow> (Some TypeError, gm, gmt)
     | Some [] \<Rightarrow> (Some TypeError, gm, gmt)
     | Some (st0 # _) \<Rightarrow>
        let messageId = st_id st0;
            govsgMessage = findOne gm messageId;
            govsgMessageTransactional = findOne gmt messageId
        in
        if govsgMessage = None \<and> govsgMessageTransactional = None then (None, gm, gmt)
        else if govsgMessage \<noteq> None \<and> govsgMessageTransactional \<noteq> None then
          (Some (UnexpectedWebhookError
             ''Received webhook for message that exists in both tables''), gm, gmt)
        else
          let whatsappStatus = st_status st0 in
          (case whatsappStatus of
             warning \<Rightarrow> (None, gm, gmt)
           | failed \<Rightarrow>
              (if errors body = None \<or> errors body = Some [] then
                 let fieldOpts = [Status (mapper whatsappStatus), ErroredAt now] in
                 (None, update govsgMessage fieldOpts messageId gm,
                      update govsgMessageTransactional fieldOpts messageId gmt)
               else
                 let e = hd (the (errors body));
                     errorCode = toString (code e);
                     errorDescription =
                       title e @ '' Details: '' @ details e @ '' href: '' @ href e;
                     fieldOpts = [Status (mapper whatsappStatus), ErrorCode errorCode,
                                  ErrorDescription errorDescription, ErroredAt now]
                 in (None, update govsgMessage fieldOpts messageId gm,
                         update govsgMessageTransactional fieldOpts messageId gmt))
           | sent \<Rightarrow>
              let fieldOpts = [Status (mapper whatsappStatus), SentAt now] in
              (None, update govsgMessage fieldOpts messageId gm,
                   update govsgMessageTransactional fieldOpts messageId gmt)
           | delivered \<Rightarrow>
              let fieldOpts = [Status (mapper whatsappStatus), DeliveredAt now] in
              (None, update govsgMessage fieldOpts messageId gm,
                   update govsgMessageTransactional fieldOpts messageId gmt)
           | read \<Rightarrow>
              let fieldOpts = [Status (mapper whatsappStatus), ReadAt now] in
              (None, update govsgMessage fieldOpts messageId gm,
                   update govsgMessageTransactional fieldOpts messageId gmt)
           | deleted \<Rightarrow>
              let fieldOpts = [Status (mapper whatsappStatus), DeletedAt now] in
              (None, update govsgMessage fieldOpts messageId gm,
                   update govsgMessageTransactional fieldOpts messageId gmt)
           | unlisted v \<Rightarrow> (Some (Error (''Unhandled status: '' @ v)), gm, gmt)))"

subsection \<open>Strings of the runtime\<close>

text \<open>
  \<^verbatim>\<open>String.prototype.toLowerCase\<close> on the code units below 256: the capital letters
  are \<^verbatim>\<open>A\<close> to \<^verbatim>\<open>Z\<close> and the Latin-1 capitals \<^verbatim>\<open>0xC0\<close> to \<^verbatim>\<open>0xDE\<close>
  without the multiplication sign \<^verbatim>\<open>0xD7\<close>; each has its small letter 32 places up.
\<close>

definition lowerUnit :: "char \<Rightarrow> char" where
  "lowerUnit c =
     (let n = (of_char c :: nat) in
      if (65 \<le> n \<and> n \<le> 90) \<or> (192 \<le> n \<and> n \<le> 222 \<and> n \<noteq> 215) then char_of (n + 32)
      else c)"

definition toLowerCase :: "string \<Rightarrow> string" where
  "toLowerCase s = map lowerUnit s"

subsection \<open>Regular expressions\<close>

text \<open>
  The fragment of the regular expressions of the language that the service writes: a
  pattern is a sequence of pieces, a piece is an atom or an atom under \<^verbatim>\<open>*\<close>, an atom
  is a pattern character or the dot. The flag \<^verbatim>\<open>i\<close> compares canonical forms: for a
  pattern character in ASCII, a code unit matches when it is that character in either
  case, since a code unit from 128 on is never made an ASCII one. The dot matches every
  code unit but a line terminator (line feed and carriage return, among the code units
  below 256).
\<close>

datatype atom = Chr char | Dot

datatype piece = One atom | Star atom

record RegExp =
  source :: "piece list"
  ignoreCase :: bool

definition canonicalize :: "char \<Rightarrow> char" where
  "canonicalize c =
     (let n = (of_char c :: nat) in if 97 \<le> n \<and> n \<le> 122 then char_of (n - 32) else c)"

definition lineTerminator :: "char \<Rightarrow> bool" where
  "lineTerminator c = (c = CHR 0x0A \<or> c = CHR 0x0D)"

fun atom_matches :: "bool \<Rightarrow> atom \<Rightarrow> char \<Rightarrow> bool" where
  "atom_matches i (Chr p) c = (if i then canonicalize c = canonicalize p else c = p)"
| "atom_matches i Dot c = (\<not> lineTerminator c)"

text \<open>A match of the pieces that starts at the head of the text, with backtracking.\<close>

fun match_here :: "bool \<Rightarrow> piece list \<Rightarrow> string \<Rightarrow> bool" where
  "match_here i [] s = True"
| "match_here i (One a # ps) [] = False"
| "match_here i (One a # ps) (c # s) = (atom_matches i a c \<and> match_here i ps s)"
| "match_here i (Star a # ps) [] = match_here i ps []"
| "match_here i (Star a # ps) (c # s) =
     ((atom_matches i a c \<and> match_here i (Star a # ps) s) \<or> match_here i ps (c # s))"

text \<open>The search for a match from each index of the text in turn.\<close>

fun search :: "bool \<Rightarrow> piece list \<Rightarrow> string \<Rightarrow> bool" where
  "search i ps [] = match_here i ps []"
| "search i ps (c # s) = (match_here i ps (c # s) \<or> search i ps s)"

text \<open>\<^verbatim>\<open>RegExp.prototype.test\<close> of a pattern without the flags \<^verbatim>\<open>g\<close> and \<^verbatim>\<open>y\<close>.\<close>

definition RegExp_test :: "RegExp \<Rightarrow> string \<Rightarrow> error + bool" where
  "RegExp_test r s = Inr (search (ignoreCase r) (source r) s)"

definition literal :: "string \<Rightarrow> piece list" where
  "literal s = map (\<lambda>c. One (Chr c)) s"

subsection \<open>The blacklist of the validator library\<close>

text \<open>
  \<^verbatim>\<open>validator.blacklist(str, chars)\<close> is
  \<^verbatim>\<open>str.replace(new RegExp('[' + chars + ']+', 'g'), '')\<close>. \<open>class_chars\<close> reads the
  members of the character class off its text, where a backslash makes the next character
  stand for itself (the text of the service has no range, no negation and no class
  escape); \<open>replace_runs\<close> deletes every maximal run of members.
\<close>

definition backslash :: char where
  "backslash = CHR 0x5C"

fun class_chars :: "string \<Rightarrow> char list" where
  "class_chars [] = []"
| "class_chars [c] = [c]"
| "class_chars (c # d # ds) =
     (if c = backslash then d # class_chars ds else c # class_chars (d # ds))"

function replace_runs :: "(char \<Rightarrow> bool) \<Rightarrow> string \<Rightarrow> string" where
  "replace_runs P [] = []"
| "replace_runs P (c # s) =
     (if P c then replace_runs P (dropWhile P s) else c # replace_runs P s)"
  by pat_completeness auto
termination
  by (relation "measure (\<lambda>(P, s). length s)") (auto simp: length_dropWhile_le less_Suc_eq_le)

definition blacklist :: "string \<Rightarrow> string \<Rightarrow> string" where
  "blacklist str chars = replace_runs (\<lambda>c. c \<in> set (class_chars chars)) str"

subsection \<open>The auto-reply decision\<close>

text \<open>
  \<^verbatim>\<open>matchAnyRegex\<close>. The parameter \<open>test\<close> is the method \<^verbatim>\<open>test\<close> of the
  runtime, which returns or throws; \<open>matchAnyRegex_loop\<close> is the body of the
  \<^verbatim>\<open>try\<close> block, and the \<^verbatim>\<open>catch\<close> block answers \<^verbatim>\<open>true\<close>.
\<close>

fun matchAnyRegex_loop ::
  "(RegExp \<Rightarrow> string \<Rightarrow> error + bool) \<Rightarrow> string \<Rightarrow> RegExp list \<Rightarrow> error + bool" where
  "matchAnyRegex_loop test input [] = Inr False"
| "matchAnyRegex_loop test input (validation # validations) =
     (case test validation input of
        Inl e \<Rightarrow> Inl e
      | Inr b \<Rightarrow> if b then Inr True else matchAnyRegex_loop test input validations)"

definition matchAnyRegex ::
  "(RegExp \<Rightarrow> string \<Rightarrow> error + bool) \<Rightarrow> string \<Rightarrow> RegExp list \<Rightarrow> bool" where
  "matchAnyRegex test input validations =
     (case matchAnyRegex_loop test input validations of Inl e \<Rightarrow> True | Inr b \<Rightarrow> b)"

text \<open>The six patterns of \<^verbatim>\<open>shouldSendAutoReply\<close>, in its order.\<close>

definition validations :: "RegExp list" where
  "validations =
     [\<lparr>source = literal ''auto'' @ [One Dot] @ literal ''reply'', ignoreCase = True\<rparr>,
      \<lparr>source = literal ''thank'', ignoreCase = True\<rparr>,
      \<lparr>source = literal ''received your message'', ignoreCase = True\<rparr>,
      \<lparr>source = literal ''http'', ignoreCase = True\<rparr>,
      \<lparr>source = literal ''out'' @ [One Dot] @ literal ''of'' @ [One Dot] @ literal ''office'',
        ignoreCase = True\<rparr>,
      \<lparr>source = literal ''dear custome'' @ [Star (Chr CHR ''r'')], ignoreCase = True\<rparr>]"

definition shouldSendAutoReply ::
  "(RegExp \<Rightarrow> string \<Rightarrow> error + bool) \<Rightarrow> string \<Rightarrow> bool" where
  "shouldSendAutoReply test messageBody =
     (if length messageBody > 256 \<or> length messageBody = 0 then False
      else
        let matchedRegex = matchAnyRegex test (toLowerCase messageBody) validations in
        if matchedRegex then False else True)"

subsection \<open>The outbound client\<close>

text \<open>
  Modelled from the spec: the message types of the client are not part of the sources.
  A call of the outbound client, or the one logger entry that carries the text of the
  inbound message, is recorded in the order it is made.
\<close>

type_synonym WhatsAppId = string

type_synonym WhatsAppApiClient = string

datatype WhatsAppLanguages = english

record WhatsAppMessageToSend =
  recipient :: WhatsAppId
  apiClient :: WhatsAppApiClient

record WhatsAppTemplateMessageToSend = WhatsAppMessageToSend +
  templateName :: string
  params :: "string list"
  language :: WhatsAppLanguages

record WhatsAppTextMessageToSend = WhatsAppMessageToSend +
  text_body :: string

datatype call =
  sendTemplateMessage WhatsAppTemplateMessageToSend bool
| sendTextMessage WhatsAppTextMessageToSend
| logger_info string WhatsAppId string string

fun outbound :: "call \<Rightarrow> bool" where
  "outbound (sendTemplateMessage m isLocal) = True"
| "outbound (sendTextMessage m) = True"
| "outbound (logger_info message whatsappId messageId messageBody) = False"

text \<open>
  The fixed acknowledgement. Its apostrophe is the right single quotation mark, written
  here as the three bytes of its UTF-8 form.
\<close>

definition acknowledgement :: string where
  "acknowledgement =
     ''If you are inquiring about COVID-19 updates, the COVID-19 infobot is temporarily ''
     @ ''unavailable due to maintenance work. For more COVID-19 related information, ''
     @ ''please visit the Ministry of Health'' @ [CHR 0xE2, CHR 0x80, CHR 0x99]
     @ ''s website at moh.gov.sg. Thank you''"

text \<open>\<^verbatim>\<open>sendAutoReply\<close>; \<open>env\<close> is \<^verbatim>\<open>config.get('env')\<close>.\<close>

definition sendAutoReply :: "string \<Rightarrow> WhatsAppId \<Rightarrow> WhatsAppApiClient \<Rightarrow> call list" where
  "sendAutoReply env whatsappId clientId =
     (let isLocal = (env = ''development'') in
      if isLocal then
        [sendTemplateMessage
           \<lparr>recipient = whatsappId, apiClient = clientId, templateName = ''2019covid19_ack'',
            params = [], language = english\<rparr> isLocal]
      else
        [sendTextMessage
           \<lparr>recipient = whatsappId, apiClient = clientId, text_body = acknowledgement\<rparr>])"

subsection \<open>The inbound-message handler\<close>

text \<open>
  \<^verbatim>\<open>parseUserMessageWebhook\<close>: the error thrown, if any, and the calls made.
\<close>

definition blacklisted :: string where
  "blacklisted = [backslash] @ ''/'' @ [backslash, backslash] @ ''['' @ [backslash] @ '']<>()*''"

definition parseUserMessageWebhook ::
  "(RegExp \<Rightarrow> string \<Rightarrow> error + bool) \<Rightarrow> string \<Rightarrow> WebhookBody \<Rightarrow> WhatsAppApiClient
     \<Rightarrow> error option \<times> call list" where
  "parseUserMessageWebhook test env body clientId =
    (case contacts body of
       None \<Rightarrow> (Some TypeError, [])
     | Some [] \<Rightarrow> (Some TypeError, [])
     | Some (contact0 # _) \<Rightarrow>
        let whatsappId = wa_id contact0 in
        (case messages body of
           None \<Rightarrow> (Some TypeError, [])
         | Some [] \<Rightarrow> (Some TypeError, [])
         | Some (message # _) \<Rightarrow>
            let messageId = msg_id message in
            if msg_type message \<noteq> text_type then (None, [])
            else
              (case msg_text message of
                 None \<Rightarrow> (Some TypeError, [])
               | Some rawMessageBody \<Rightarrow>
                  let sanitisedMessageBody = blacklist rawMessageBody blacklisted;
                      autoReplyNeeded = shouldSendAutoReply test sanitisedMessageBody
                  in
                  if \<not> autoReplyNeeded then (None, [])
                  else
                    (None,
                     logger_info ''Sending auto reply'' whatsappId messageId
                       sanitisedMessageBody
                     # sendAutoReply env whatsappId clientId))))"

subsection \<open>The dispatcher\<close>

text \<open>
  \<^verbatim>\<open>parseWebhook\<close>: the error thrown, if any, the two tables and the calls made.
\<close>

definition parseWebhook ::
  "(RegExp \<Rightarrow> string \<Rightarrow> error + bool) \<Rightarrow> string \<Rightarrow> (WhatsAppMessageStatus \<Rightarrow> 's) \<Rightarrow> date
     \<Rightarrow> payload \<Rightarrow> WhatsAppApiClient \<Rightarrow> 's table \<Rightarrow> 's table
     \<Rightarrow> error option \<times> 's table \<times> 's table \<times> call list" where
  "parseWebhook test env mapper now p clientId gm gmt =
    (if falsy p \<or> typeof p \<noteq> ''object'' then
       (Some (UnexpectedWebhookError ''Unexpected webhook body''), gm, gmt, [])
     else
       (case p of
          JObject body \<Rightarrow>
            if statuses body \<noteq> None then
              (case parseTemplateMessageWebhook mapper now body gm gmt of
                 (err, gm', gmt') \<Rightarrow> (err, gm', gmt', []))
            else if messages body \<noteq> None \<and> contacts body \<noteq> None then
              (case parseUserMessageWebhook test env body clientId of
                 (err, calls) \<Rightarrow> (err, gm, gmt, calls))
            else (Some (UnexpectedWebhookError ''Unexpected webhook body''), gm, gmt, [])
        | _ \<Rightarrow> (Some (UnexpectedWebhookError ''Unexpected webhook body''), gm, gmt, [])))"

subsection \<open>The suppression patterns in the words of the spec\<close>

text \<open>
  The six patterns as the spec lists them, on the lower-cased body: \<^verbatim>\<open>auto reply\<close> and
  \<^verbatim>\<open>out of office\<close> with any single character in place of each blank, and the four
  plain phrases. This is the reading of the spec, to be compared with
  \<open>validations\<close>, the patterns of the service.
\<close>

definition spec_suppression_pattern :: "string \<Rightarrow> bool" where
  "spec_suppression_pattern l =
     ((\<exists>c. sublist (''auto'' @ [c] @ ''reply'') l)
      \<or> sublist ''thank'' l
      \<or> sublist ''received your message'' l
      \<or> sublist ''http'' l
      \<or> (\<exists>c d. sublist (''out'' @ [c] @ ''of'' @ [d] @ ''office'') l)
      \<or> sublist ''dear customer'' l)"

subsection \<open>Auxiliary notions\<close>

text \<open>A code unit that is a capital letter of ASCII.\<close>

definition asciiCapital :: "char \<Rightarrow> bool" where
  "asciiCapital c = (65 \<le> (of_char c :: nat) \<and> (of_char c :: nat) \<le> 90)"

text \<open>The nine characters of the blacklist.\<close>

definition removedChars :: "char set" where
  "removedChars =
     {CHR ''/'', backslash, CHR ''['', CHR '']'', CHR ''<'', CHR ''>'', CHR ''('', CHR '')'',
      CHR ''*''}"

subsection \<open>Sample data\<close>

text \<open>Concrete rows, tables and payloads on which the theorems below are run.\<close>

definition row0 :: "WhatsAppMessageStatus GovsgMessage" where
  "row0 = \<lparr>status = sent, sentAt = Some 3, deliveredAt = None, readAt = None,
            deletedAt = None, erroredAt = None, errorCode = None, errorDescription = None\<rparr>"

definition no_rows :: "WhatsAppMessageStatus table" where
  "no_rows = Map.empty"

definition one_row :: "WhatsAppMessageStatus table" where
  "one_row = Map.empty(''m1'' \<mapsto> row0)"

definition error470 :: WhatsAppWebhookError where
  "error470 = \<lparr>code = 470, title = ''Re-engagement'', details = ''too late'',
                href = ''x.y''\<rparr>"

definition status_body ::
  "WhatsAppMessageStatus \<Rightarrow> WhatsAppWebhookError list option
     \<Rightarrow> WhatsAppWebhookError list option \<Rightarrow> WebhookBody" where
  "status_body s nested toplevel =
     \<lparr>statuses = Some [\<lparr>st_id = ''m1'', st_status = s, st_errors = nested\<rparr>],
      errors = toplevel, messages = None, contacts = None\<rparr>"

text \<open>An engine whose every evaluation throws.\<close>

definition failing_test :: "RegExp \<Rightarrow> string \<Rightarrow> error + bool" where
  "failing_test r s = Inl TypeError"

definition contact1 :: WhatsAppContact where
  "contact1 = \<lparr>wa_id = ''6591234567''\<rparr>"

definition text_message :: "string \<Rightarrow> WhatsAppWebhookMessage" where
  "text_message raw = \<lparr>msg_id = ''w1'', msg_type = text_type, msg_text = Some raw\<rparr>"

definition message_body :: "string \<Rightarrow> WebhookBody" where
  "message_body raw =
     \<lparr>statuses = None, errors = None, messages = Some [text_message raw],
      contacts = Some [contact1]\<rparr>"

text \<open>A body with all of \<^verbatim>\<open>statuses\<close>, \<^verbatim>\<open>messages\<close> and \<^verbatim>\<open>contacts\<close>.\<close>

definition mixed_body :: WebhookBody where
  "mixed_body =
     \<lparr>statuses = Some [\<lparr>st_id = ''m1'', st_status = delivered, st_errors = None\<rparr>],
      errors = None, messages = Some [text_message ''hello''], contacts = Some [contact1]\<rparr>"

section \<open>Properties of the status handler\<close>

text \<open>
  C9. A status event whose message id is in neither table: the handler returns normally
  (no error) and both tables are as they were.
\<close>

theorem reconcile_not_found:
  assumes "statuses body = Some (st # rest)"
    and "findOne gm (st_id st) = None" and "findOne gmt (st_id st) = None"
  shows "parseTemplateMessageWebhook mapper now body gm gmt = (None, gm, gmt)"
  using assms by (simp add: parseTemplateMessageWebhook_def)

theorem reconcile_not_found_witness:
  "statuses (status_body delivered None None)
     = Some [\<lparr>st_id = ''m1'', st_status = delivered, st_errors = None\<rparr>]
   \<and> findOne no_rows ''m1'' = None
   \<and> parseTemplateMessageWebhook id 7 (status_body delivered None None) no_rows no_rows
       = (None, no_rows, no_rows)"
  using reconcile_not_found [of "status_body delivered None None"
      "\<lparr>st_id = ''m1'', st_status = delivered, st_errors = None\<rparr>" "[]" no_rows no_rows id 7]
  by (simp add: status_body_def no_rows_def findOne_def)

text \<open>
  C2. A status event whose message id is in both tables: the handler throws
  \<^verbatim>\<open>UnexpectedWebhookError\<close> with the message about both tables (the
  invariant-violation error of the spec), and both tables are as they were.
\<close>

theorem reconcile_both:
  assumes "statuses body = Some (st # rest)"
    and "findOne gm (st_id st) \<noteq> None" and "findOne gmt (st_id st) \<noteq> None"
  shows "parseTemplateMessageWebhook mapper now body gm gmt =
     (Some (UnexpectedWebhookError
        ''Received webhook for message that exists in both tables''), gm, gmt)"
  using assms by (auto simp add: parseTemplateMessageWebhook_def Let_def)

theorem reconcile_both_witness:
  "statuses (status_body delivered None None)
     = Some [\<lparr>st_id = ''m1'', st_status = delivered, st_errors = None\<rparr>]
   \<and> findOne one_row ''m1'' \<noteq> None
   \<and> parseTemplateMessageWebhook id 7 (status_body delivered None None) one_row one_row
       = (Some (UnexpectedWebhookError
            ''Received webhook for message that exists in both tables''), one_row, one_row)"
  using reconcile_both [of "status_body delivered None None"
      "\<lparr>st_id = ''m1'', st_status = delivered, st_errors = None\<rparr>" "[]" one_row one_row id 7]
  by (simp add: status_body_def one_row_def findOne_def)

text \<open>
  C6. A status event whose status is none of the six the handler names, with the message
  id in exactly one of the two tables: the handler throws the \<^verbatim>\<open>Error\<close>
  \<^verbatim>\<open>Unhandled status: ...\<close> (the unhandled-status error of the spec), and both
  tables are as they were.
\<close>

theorem reconcile_unlisted:
  assumes "statuses body = Some (st # rest)"
    and "st_status st = unlisted v"
    and "(findOne gm (st_id st) = None) \<noteq> (findOne gmt (st_id st) = None)"
  shows "parseTemplateMessageWebhook mapper now body gm gmt =
     (Some (Error (''Unhandled status: '' @ v)), gm, gmt)"
  using assms by (auto simp add: parseTemplateMessageWebhook_def Let_def)

theorem reconcile_unlisted_witness:
  "statuses (status_body (unlisted ''pending'') None None)
     = Some [\<lparr>st_id = ''m1'', st_status = unlisted ''pending'', st_errors = None\<rparr>]
   \<and> (findOne one_row ''m1'' = None) \<noteq> (findOne no_rows ''m1'' = None)
   \<and> parseTemplateMessageWebhook id 7 (status_body (unlisted ''pending'') None None)
         one_row no_rows
       = (Some (Error ''Unhandled status: pending''), one_row, no_rows)"
  using reconcile_unlisted [of "status_body (unlisted ''pending'') None None"
      "\<lparr>st_id = ''m1'', st_status = unlisted ''pending'', st_errors = None\<rparr>" "[]"
      "''pending''" one_row no_rows id 7]
  by (simp add: status_body_def one_row_def no_rows_def findOne_def)

text \<open>
  C5. A status event with status sent, delivered, read or deleted, with the message id in
  exactly one of the two tables (row \<open>r\<close>): the handler returns normally; the matched
  row becomes \<open>r\<close> with the mapped status and the one timestamp of that status set to
  \<open>now\<close>, every other field of the row as before; every other row of that table and the
  whole other table are as they were.
\<close>

theorem reconcile_timestamp:
  assumes "statuses body = Some (st # rest)"
    and "findOne gm (st_id st) = Some r \<and> findOne gmt (st_id st) = None
           \<and> gm' = gm(st_id st \<mapsto> r') \<and> gmt' = gmt
         \<or> findOne gm (st_id st) = None \<and> findOne gmt (st_id st) = Some r
           \<and> gm' = gm \<and> gmt' = gmt(st_id st \<mapsto> r')"
    and "st_status st = sent \<and> r' = r\<lparr>status := mapper sent, sentAt := Some now\<rparr>
         \<or> st_status st = delivered
           \<and> r' = r\<lparr>status := mapper delivered, deliveredAt := Some now\<rparr>
         \<or> st_status st = read \<and> r' = r\<lparr>status := mapper read, readAt := Some now\<rparr>
         \<or> st_status st = deleted
           \<and> r' = r\<lparr>status := mapper deleted, deletedAt := Some now\<rparr>"
  shows "parseTemplateMessageWebhook mapper now body gm gmt = (None, gm', gmt')"
  using assms by (auto simp add: parseTemplateMessageWebhook_def Let_def update_def)

theorem reconcile_timestamp_witness:
  "statuses (status_body delivered None None)
     = Some [\<lparr>st_id = ''m1'', st_status = delivered, st_errors = None\<rparr>]
   \<and> findOne one_row ''m1'' = Some row0 \<and> findOne no_rows ''m1'' = None
   \<and> parseTemplateMessageWebhook id 7 (status_body delivered None None) one_row no_rows
       = (None, one_row(''m1'' \<mapsto> row0\<lparr>status := delivered, deliveredAt := Some 7\<rparr>),
          no_rows)"
  using reconcile_timestamp [where body = "status_body delivered None None"
      and st = "\<lparr>st_id = ''m1'', st_status = delivered, st_errors = None\<rparr>" and rest = "[]"
      and gm = one_row and gmt = no_rows and r = row0 and mapper = id and now = 7
      and r' = "row0\<lparr>status := delivered, deliveredAt := Some 7\<rparr>"
      and gm' = "one_row(''m1'' \<mapsto> row0\<lparr>status := delivered, deliveredAt := Some 7\<rparr>)"
      and gmt' = no_rows]
  by (simp add: status_body_def one_row_def no_rows_def findOne_def)

text \<open>
  C1, as the claim states it, fails: a failed status event that carries its error list
  inside the status element, matched by one row. The handler reads \<^verbatim>\<open>body.errors\<close>,
  finds none, and writes the status and \<^verbatim>\<open>erroredAt\<close> only; the error code and the
  description of the row stay unset.
\<close>

theorem reconcile_failed_nested_counterexample:
  "st_errors (hd (the (statuses (status_body failed (Some [error470]) None)))) = Some [error470]
   \<and> findOne one_row ''m1'' = Some row0 \<and> findOne no_rows ''m1'' = None
   \<and> parseTemplateMessageWebhook id 7 (status_body failed (Some [error470]) None) one_row no_rows
       = (None, one_row(''m1'' \<mapsto> row0\<lparr>status := failed, erroredAt := Some 7\<rparr>), no_rows)
   \<and> errorCode (row0\<lparr>status := failed, erroredAt := Some 7\<rparr>) \<noteq> Some (toString (code error470))
   \<and> errorDescription (row0\<lparr>status := failed, erroredAt := Some 7\<rparr>) = None"
  by (simp add: status_body_def one_row_def no_rows_def findOne_def row0_def
        parseTemplateMessageWebhook_def update_def)

text \<open>
  C1, amended. A failed status event in a body whose own key \<^verbatim>\<open>errors\<close> holds a
  non-empty list, with the message id in exactly one of the two tables (row \<open>r\<close>): the
  matched row gets the mapped status, \<^verbatim>\<open>erroredAt = now\<close>, the error code as the
  decimal string of the code of the first error, and the description
  \<^verbatim>\<open>title Details: details href: href\<close> of that error; nothing else changes.
\<close>

theorem reconcile_failed:
  assumes "statuses body = Some (st # rest)"
    and "st_status st = failed"
    and "errors body = Some (e # es)"
    and "findOne gm (st_id st) = Some r \<and> findOne gmt (st_id st) = None
           \<and> gm' = gm(st_id st \<mapsto> r') \<and> gmt' = gmt
         \<or> findOne gm (st_id st) = None \<and> findOne gmt (st_id st) = Some r
           \<and> gm' = gm \<and> gmt' = gmt(st_id st \<mapsto> r')"
    and "r' = r\<lparr>status := mapper failed, erroredAt := Some now,
                 errorCode := Some (toString (code e)),
                 errorDescription :=
                   Some (title e @ '' Details: '' @ details e @ '' href: '' @ href e)\<rparr>"
  shows "parseTemplateMessageWebhook mapper now body gm gmt = (None, gm', gmt')"
  using assms by (auto simp add: parseTemplateMessageWebhook_def Let_def update_def)

theorem reconcile_failed_witness:
  "statuses (status_body failed None (Some [error470]))
     = Some [\<lparr>st_id = ''m1'', st_status = failed, st_errors = None\<rparr>]
   \<and> errors (status_body failed None (Some [error470])) = Some [error470]
   \<and> findOne no_rows ''m1'' = None \<and> findOne one_row ''m1'' = Some row0
   \<and> parseTemplateMessageWebhook id 7 (status_body failed None (Some [error470])) no_rows one_row
       = (None, no_rows,
          one_row(''m1'' \<mapsto> row0\<lparr>status := failed, erroredAt := Some 7,
             errorCode := Some ''470'',
             errorDescription := Some ''Re-engagement Details: too late href: x.y''\<rparr>))"
proof -
  let ?st = "\<lparr>st_id = ''m1'', st_status = failed, st_errors = None\<rparr>"
  let ?r' = "row0\<lparr>status := id failed, erroredAt := Some 7,
                 errorCode := Some (toString (code error470)),
                 errorDescription :=
                   Some (title error470 @ '' Details: '' @ details error470
                           @ '' href: '' @ href error470)\<rparr>"
  have c: "toString (code error470) = ''470''"
    by (simp add: error470_def toString_def digits.simps [of 470] digits.simps [of 47]
          digits.simps [of 4])
  have d: "title error470 @ '' Details: '' @ details error470 @ '' href: '' @ href error470
             = ''Re-engagement Details: too late href: x.y''"
    by (simp add: error470_def)
  have s: "statuses (status_body failed None (Some [error470])) = Some [?st]"
    and e: "errors (status_body failed None (Some [error470])) = Some [error470]"
    by (simp_all add: status_body_def)
  have f: "findOne no_rows ''m1'' = None" "findOne one_row ''m1'' = Some row0"
    by (simp_all add: findOne_def no_rows_def one_row_def)
  have "parseTemplateMessageWebhook id 7 (status_body failed None (Some [error470]))
          no_rows one_row = (None, no_rows, one_row(''m1'' \<mapsto> ?r'))"
    by (rule reconcile_failed [where st = ?st and r = row0 and r' = ?r', OF s _ e])
       (simp_all add: f)
  then show ?thesis
    using s e f by (simp only: c d id_apply simp_thms)
qed

section \<open>Facts about strings and patterns\<close>

subsection \<open>Lower case and canonical forms\<close>

lemma of_char_canonicalize:
  "(of_char (canonicalize c) :: nat) =
     (if 97 \<le> (of_char c :: nat) \<and> (of_char c :: nat) \<le> 122 then of_char c - 32 else of_char c)"
proof -
  have "(of_char c :: nat) \<le> 122 \<Longrightarrow> (of_char c - 32 :: nat) mod 256 = of_char c - 32"
    by simp
  then show ?thesis by (auto simp add: canonicalize_def Let_def)
qed

lemma of_char_lowerUnit:
  "(of_char (lowerUnit c) :: nat) =
     (if (65 \<le> (of_char c :: nat) \<and> (of_char c :: nat) \<le> 90)
          \<or> (192 \<le> (of_char c :: nat) \<and> (of_char c :: nat) \<le> 222 \<and> (of_char c :: nat) \<noteq> 215)
      then of_char c + 32 else of_char c)"
proof -
  have "(of_char c :: nat) \<le> 222 \<Longrightarrow> (of_char c + 32 :: nat) mod 256 = of_char c + 32"
    by simp
  then show ?thesis by (auto simp add: lowerUnit_def Let_def)
qed

lemma lowerUnit_not_capital: "\<not> asciiCapital (lowerUnit c)"
  by (simp add: asciiCapital_def of_char_lowerUnit)

lemma toLowerCase_not_capital: "c \<in> set (toLowerCase s) \<Longrightarrow> \<not> asciiCapital c"
  by (auto simp add: toLowerCase_def lowerUnit_not_capital)

lemma canonical_code_inj:
  fixes n m :: nat
  assumes "\<not> (65 \<le> n \<and> n \<le> 90)" and "\<not> (65 \<le> m \<and> m \<le> 90)"
    and "(if 97 \<le> n \<and> n \<le> 122 then n - 32 else n) = (if 97 \<le> m \<and> m \<le> 122 then m - 32 else m)"
  shows "n = m"
  using assms by (auto split: if_splits)

lemma canonicalize_inj:
  assumes "\<not> asciiCapital c" and "\<not> asciiCapital p"
  shows "canonicalize c = canonicalize p \<longleftrightarrow> c = p"
proof
  assume "canonicalize c = canonicalize p"
  then have "(of_char (canonicalize c) :: nat) = of_char (canonicalize p)" by simp
  with assms have "(of_char c :: nat) = of_char p"
    unfolding of_char_canonicalize asciiCapital_def by (rule canonical_code_inj)
  then show "c = p" by simp
qed simp

lemma literal_match:
  assumes "\<forall>c\<in>set x. \<not> asciiCapital c" and "\<forall>c\<in>set w. \<not> asciiCapital c"
  shows "list_all2 (atom_matches True) (map Chr w) x \<longleftrightarrow> x = w"
  using assms
proof (induction w arbitrary: x)
  case Nil
  then show ?case by auto
next
  case (Cons p w)
  then show ?case by (cases x) (auto simp add: canonicalize_inj)
qed

subsection \<open>The matcher\<close>

lemma match_here_star_only: "match_here i [Star a] s"
  by (induction s) auto

lemma match_here_atoms:
  "match_here i (map One as @ ps) s \<longleftrightarrow>
     (\<exists>x rest. s = x @ rest \<and> list_all2 (atom_matches i) as x \<and> match_here i ps rest)"
proof (induction as arbitrary: s)
  case Nil
  then show ?case by simp
next
  case (Cons a as)
  show ?case
  proof (cases s)
    case Nil
    then show ?thesis by simp
  next
    case (Cons c s')
    show ?thesis
      unfolding Cons by (auto simp add: Cons.IH list_all2_Cons1 Cons_eq_append_conv)
  qed
qed

lemma search_iff:
  "search i ps s \<longleftrightarrow> (\<exists>pre post. s = pre @ post \<and> match_here i ps post)"
proof (induction s)
  case Nil
  then show ?case by simp
next
  case (Cons c s)
  show ?case
    by (auto simp add: Cons.IH Cons_eq_append_conv)
qed


lemma search_atoms:
  "search i (map One as @ ps) l \<longleftrightarrow>
     (\<exists>pre x rest. l = pre @ x @ rest \<and> list_all2 (atom_matches i) as x \<and> match_here i ps rest)"
  unfolding search_iff match_here_atoms by blast

lemma literal_prefix_match:
  assumes "\<forall>c\<in>set x. \<not> asciiCapital c" and "\<forall>c\<in>set u. \<not> asciiCapital c"
  shows "list_all2 (atom_matches True) (map Chr u @ as) x \<longleftrightarrow>
           (\<exists>y. x = u @ y \<and> list_all2 (atom_matches True) as y)"
proof
  assume "list_all2 (atom_matches True) (map Chr u @ as) x"
  then obtain us vs where x: "x = us @ vs"
    and us: "list_all2 (atom_matches True) (map Chr u) us"
    and vs: "list_all2 (atom_matches True) as vs"
    by (auto simp add: list_all2_append1)
  from assms(1) x have "\<forall>c\<in>set us. \<not> asciiCapital c" by simp
  with us assms(2) have "us = u" by (simp add: literal_match)
  with x vs show "\<exists>y. x = u @ y \<and> list_all2 (atom_matches True) as y" by blast
next
  assume "\<exists>y. x = u @ y \<and> list_all2 (atom_matches True) as y"
  then obtain y where x: "x = u @ y" and y: "list_all2 (atom_matches True) as y" by blast
  from assms(2) have "list_all2 (atom_matches True) (map Chr u) u"
    by (simp add: literal_match)
  then show "list_all2 (atom_matches True) (map Chr u @ as) x"
    unfolding x using y by (rule list_all2_appendI)
qed

lemma dot_match:
  "list_all2 (atom_matches i) (Dot # as) x \<longleftrightarrow>
     (\<exists>c y. x = c # y \<and> \<not> lineTerminator c \<and> list_all2 (atom_matches i) as y)"
  by (auto simp add: list_all2_Cons1)

lemma search_literal:
  assumes "\<forall>c\<in>set l. \<not> asciiCapital c" and "\<forall>c\<in>set w. \<not> asciiCapital c"
    and "\<And>s. match_here True ps s"
  shows "search True (literal w @ ps) l \<longleftrightarrow> sublist w l"
proof -
  have "list_all2 (atom_matches True) (map Chr w) x \<longleftrightarrow> x = w"
    if "l = pre @ x @ rest" for pre x rest
    using that assms(1,2) by (intro literal_match) auto
  then show ?thesis
    unfolding literal_def sublist_def
    using search_atoms [of True "map Chr w" ps l] assms(3)
    by (simp add: comp_def) blast
qed


lemma search_literal_dot_literal:
  assumes "\<forall>c\<in>set l. \<not> asciiCapital c"
    and "\<forall>c\<in>set u. \<not> asciiCapital c" and "\<forall>c\<in>set v. \<not> asciiCapital c"
  shows "search True (literal u @ [One Dot] @ literal v) l \<longleftrightarrow>
           (\<exists>c. \<not> lineTerminator c \<and> sublist (u @ [c] @ v) l)"
proof -
  have "list_all2 (atom_matches True) (map Chr u @ Dot # map Chr v) x \<longleftrightarrow>
          (\<exists>c. \<not> lineTerminator c \<and> x = u @ [c] @ v)"
    if "l = pre @ x @ rest" for pre x rest
  proof -
    from that assms(1) have x: "\<forall>c\<in>set x. \<not> asciiCapital c" by simp
    show ?thesis
      unfolding literal_prefix_match [OF x assms(2)] dot_match
      using x assms(3) by (auto simp add: literal_match)
  qed
  then have "(\<exists>pre x rest. l = pre @ x @ rest
                \<and> list_all2 (atom_matches True) (map Chr u @ Dot # map Chr v) x)
             \<longleftrightarrow> (\<exists>c. \<not> lineTerminator c \<and> sublist (u @ [c] @ v) l)"
    unfolding sublist_def by blast
  then show ?thesis
    using search_atoms [of True "map Chr u @ Dot # map Chr v" "[]" l]
    by (simp add: literal_def comp_def)
qed


lemma search_literal_dot_literal_dot_literal:
  assumes "\<forall>c\<in>set l. \<not> asciiCapital c"
    and "\<forall>c\<in>set u. \<not> asciiCapital c" and "\<forall>c\<in>set v. \<not> asciiCapital c"
    and "\<forall>c\<in>set w. \<not> asciiCapital c"
  shows "search True (literal u @ [One Dot] @ literal v @ [One Dot] @ literal w) l \<longleftrightarrow>
           (\<exists>c d. \<not> lineTerminator c \<and> \<not> lineTerminator d \<and> sublist (u @ [c] @ v @ [d] @ w) l)"
proof -
  have "list_all2 (atom_matches True) (map Chr u @ Dot # map Chr v @ Dot # map Chr w) x \<longleftrightarrow>
          (\<exists>c d. \<not> lineTerminator c \<and> \<not> lineTerminator d \<and> x = u @ [c] @ v @ [d] @ w)"
    if "l = pre @ x @ rest" for pre x rest
  proof -
    from that assms(1) have x: "\<forall>c\<in>set x. \<not> asciiCapital c" by simp
    have "list_all2 (atom_matches True) (map Chr v @ Dot # map Chr w) y \<longleftrightarrow>
            (\<exists>d. \<not> lineTerminator d \<and> y = v @ [d] @ w)"
      if "\<forall>c\<in>set y. \<not> asciiCapital c" for y
      unfolding literal_prefix_match [OF that assms(3)] dot_match
      using that assms(4) by (auto simp add: literal_match)
    then show ?thesis
      unfolding literal_prefix_match [OF x assms(2)] dot_match
      using x by auto
  qed
  then have "(\<exists>pre x rest. l = pre @ x @ rest
                \<and> list_all2 (atom_matches True)
                     (map Chr u @ Dot # map Chr v @ Dot # map Chr w) x)
             \<longleftrightarrow> (\<exists>c d. \<not> lineTerminator c \<and> \<not> lineTerminator d
                    \<and> sublist (u @ [c] @ v @ [d] @ w) l)"
    unfolding sublist_def by blast
  then show ?thesis
    using search_atoms [of True "map Chr u @ Dot # map Chr v @ Dot # map Chr w" "[]" l]
    by (simp add: literal_def comp_def)
qed

lemma no_capital_in_patterns:
  "\<forall>c\<in>set ''auto''. \<not> asciiCapital c" "\<forall>c\<in>set ''reply''. \<not> asciiCapital c"
  "\<forall>c\<in>set ''thank''. \<not> asciiCapital c" "\<forall>c\<in>set ''received your message''. \<not> asciiCapital c"
  "\<forall>c\<in>set ''http''. \<not> asciiCapital c" "\<forall>c\<in>set ''out''. \<not> asciiCapital c"
  "\<forall>c\<in>set ''of''. \<not> asciiCapital c" "\<forall>c\<in>set ''office''. \<not> asciiCapital c"
  "\<forall>c\<in>set ''dear custome''. \<not> asciiCapital c"
  by (simp_all add: asciiCapital_def)

lemma matchAnyRegex_validations:
  "matchAnyRegex RegExp_test (toLowerCase b) validations \<longleftrightarrow>
     (\<exists>c. \<not> lineTerminator c \<and> sublist (''auto'' @ [c] @ ''reply'') (toLowerCase b))
     \<or> sublist ''thank'' (toLowerCase b)
     \<or> sublist ''received your message'' (toLowerCase b)
     \<or> sublist ''http'' (toLowerCase b)
     \<or> (\<exists>c d. \<not> lineTerminator c \<and> \<not> lineTerminator d
           \<and> sublist (''out'' @ [c] @ ''of'' @ [d] @ ''office'') (toLowerCase b))
     \<or> sublist ''dear custome'' (toLowerCase b)"
proof -
  have l: "\<forall>c\<in>set (toLowerCase b). \<not> asciiCapital c"
    using toLowerCase_not_capital by blast
  have 1: "search True (literal ''auto'' @ [One Dot] @ literal ''reply'') (toLowerCase b) \<longleftrightarrow>
      (\<exists>c. \<not> lineTerminator c \<and> sublist (''auto'' @ [c] @ ''reply'') (toLowerCase b))"
    by (rule search_literal_dot_literal [OF l no_capital_in_patterns(1,2)])
  have 2: "search True (literal ''thank'') (toLowerCase b) \<longleftrightarrow> sublist ''thank'' (toLowerCase b)"
    using search_literal [OF l no_capital_in_patterns(3), of "[]"] by simp
  have 3: "search True (literal ''received your message'') (toLowerCase b) \<longleftrightarrow>
      sublist ''received your message'' (toLowerCase b)"
    using search_literal [OF l no_capital_in_patterns(4), of "[]"] by simp
  have 4: "search True (literal ''http'') (toLowerCase b) \<longleftrightarrow> sublist ''http'' (toLowerCase b)"
    using search_literal [OF l no_capital_in_patterns(5), of "[]"] by simp
  have 5: "search True (literal ''out'' @ [One Dot] @ literal ''of'' @ [One Dot] @ literal ''office'')
        (toLowerCase b) \<longleftrightarrow>
      (\<exists>c d. \<not> lineTerminator c \<and> \<not> lineTerminator d
           \<and> sublist (''out'' @ [c] @ ''of'' @ [d] @ ''office'') (toLowerCase b))"
    by (rule search_literal_dot_literal_dot_literal [OF l no_capital_in_patterns(6,7,8)])
  have 6: "search True (literal ''dear custome'' @ [Star (Chr CHR ''r'')]) (toLowerCase b) \<longleftrightarrow>
      sublist ''dear custome'' (toLowerCase b)"
    by (rule search_literal [OF l no_capital_in_patterns(9)]) (rule match_here_star_only)
  show ?thesis
    unfolding matchAnyRegex_def validations_def
    by (simp only: matchAnyRegex_loop.simps RegExp_test_def RegExp.simps sum.case
          1 2 3 4 5 6 split: if_splits) auto
qed

subsection \<open>The blacklist and the decision\<close>

lemma filter_dropWhile_not: "filter (\<lambda>c. \<not> P c) (dropWhile P s) = filter (\<lambda>c. \<not> P c) s"
  by (induction s) simp_all

lemma replace_runs_filter: "replace_runs P s = filter (\<lambda>c. \<not> P c) s"
  by (induction P s rule: replace_runs.induct) (simp_all add: filter_dropWhile_not)

lemma class_chars_blacklisted: "set (class_chars blacklisted) = removedChars"
  by (auto simp add: blacklisted_def backslash_def removedChars_def)

lemma blacklist_filter: "blacklist raw blacklisted = filter (\<lambda>c. c \<notin> removedChars) raw"
  by (simp add: blacklist_def replace_runs_filter class_chars_blacklisted)

lemma shouldSendAutoReply_iff:
  "shouldSendAutoReply test b \<longleftrightarrow>
     b \<noteq> [] \<and> length b \<le> 256 \<and> \<not> matchAnyRegex test (toLowerCase b) validations"
  by (auto simp add: shouldSendAutoReply_def Let_def)

section \<open>Properties of the auto-reply decision\<close>

text \<open>
  C4, as the claim states it, fails: the body \<^verbatim>\<open>dear custome\<close> is not empty, has at
  most 256 characters, its lower-cased form matches none of the six patterns in the words
  of the spec, and no evaluation fails; the claim lets the predicate return true, and it
  returns false.
\<close>

theorem shouldSendAutoReply_spec_counterexample:
  "''dear custome'' \<noteq> [] \<and> length ''dear custome'' \<le> 256
   \<and> \<not> spec_suppression_pattern (toLowerCase ''dear custome'')
   \<and> matchAnyRegex_loop RegExp_test (toLowerCase ''dear custome'') validations = Inr True
   \<and> shouldSendAutoReply RegExp_test ''dear custome'' = False"
proof -
  have l: "toLowerCase ''dear custome'' = ''dear custome''" by code_simp
  have 1: "\<not> sublist ''auto'' ''dear custome''" by code_simp
  have 2: "\<not> sublist ''thank'' ''dear custome''" by code_simp
  have 3: "\<not> sublist ''received your message'' ''dear custome''" by code_simp
  have 4: "\<not> sublist ''http'' ''dear custome''" by code_simp
  have 5: "\<not> sublist ''out'' ''dear custome''" by code_simp
  have 6: "\<not> sublist ''dear customer'' ''dear custome''" by code_simp
  have 7: "\<not> sublist (''auto'' @ x) ''dear custome''" for x
    using 1 sublist_order.dual_order.trans [OF _ sublist_append_rightI] by blast
  have 8: "\<not> sublist (''out'' @ x) ''dear custome''" for x
    using 5 sublist_order.dual_order.trans [OF _ sublist_append_rightI] by blast
  have s: "\<not> spec_suppression_pattern (toLowerCase ''dear custome'')"
    unfolding spec_suppression_pattern_def l using 2 3 4 6 7 8 by blast
  have m: "matchAnyRegex_loop RegExp_test (toLowerCase ''dear custome'') validations = Inr True"
    by code_simp
  have r: "shouldSendAutoReply RegExp_test ''dear custome'' = False" by code_simp
  from s m r show ?thesis by simp
qed

text \<open>
  C4, amended. With the engine of the runtime, \<^verbatim>\<open>shouldSendAutoReply\<close> returns false
  exactly for a body that is empty, or longer than 256 characters, or whose lower-cased
  form contains \<^verbatim>\<open>auto\<close>, one character that is not a line terminator and
  \<^verbatim>\<open>reply\<close>; or \<^verbatim>\<open>thank\<close>; or \<^verbatim>\<open>received your message\<close>; or
  \<^verbatim>\<open>http\<close>; or \<^verbatim>\<open>out\<close>, one such character, \<^verbatim>\<open>of\<close>, one such
  character and \<^verbatim>\<open>office\<close>; or \<^verbatim>\<open>dear custome\<close>. With any engine, it returns
  false when an evaluation throws, and it returns true exactly when the body is not
  empty, has at most 256 characters and every pattern is evaluated to false.
\<close>

theorem shouldSendAutoReply_suppression:
  "(shouldSendAutoReply RegExp_test b = False \<longleftrightarrow>
      b = [] \<or> 256 < length b
      \<or> (\<exists>c. \<not> lineTerminator c \<and> sublist (''auto'' @ [c] @ ''reply'') (toLowerCase b))
      \<or> sublist ''thank'' (toLowerCase b)
      \<or> sublist ''received your message'' (toLowerCase b)
      \<or> sublist ''http'' (toLowerCase b)
      \<or> (\<exists>c d. \<not> lineTerminator c \<and> \<not> lineTerminator d
            \<and> sublist (''out'' @ [c] @ ''of'' @ [d] @ ''office'') (toLowerCase b))
      \<or> sublist ''dear custome'' (toLowerCase b))
   \<and> (matchAnyRegex_loop test (toLowerCase b) validations = Inl e
        \<longrightarrow> shouldSendAutoReply test b = False)
   \<and> (shouldSendAutoReply test b = True \<longleftrightarrow>
        b \<noteq> [] \<and> length b \<le> 256
        \<and> matchAnyRegex_loop test (toLowerCase b) validations = Inr False)"
  unfolding shouldSendAutoReply_iff matchAnyRegex_validations
  by (auto simp add: matchAnyRegex_def split: sum.splits)

theorem shouldSendAutoReply_suppression_witness:
  "sublist ''thank'' (toLowerCase ''Thank you'')
   \<and> shouldSendAutoReply RegExp_test ''Thank you'' = False
   \<and> matchAnyRegex_loop failing_test (toLowerCase ''hello'') validations = Inl TypeError
   \<and> shouldSendAutoReply failing_test ''hello'' = False"
proof -
  have a: "sublist ''thank'' (toLowerCase ''Thank you'')" by code_simp
  have b: "matchAnyRegex_loop failing_test (toLowerCase ''hello'') validations = Inl TypeError"
    by (simp add: validations_def failing_test_def)
  from a shouldSendAutoReply_suppression [of "''Thank you''" failing_test TypeError]
  have c: "shouldSendAutoReply RegExp_test ''Thank you'' = False" by blast
  from b shouldSendAutoReply_suppression [of "''hello''" failing_test TypeError]
  have d: "shouldSendAutoReply failing_test ''hello'' = False" by blast
  from a b c d show ?thesis by blast
qed

text \<open>
  C10. A body of 1 to 256 characters whose lower-cased form contains
  \<^verbatim>\<open>dear custome\<close> is suppressed: the last pattern, \<^verbatim>\<open>dear custome\<close> followed by
  any number of \<^verbatim>\<open>r\<close>, matches a lower-cased body exactly when it contains
  \<^verbatim>\<open>dear custome\<close>. Every text that contains \<^verbatim>\<open>dear customer\<close> contains
  \<^verbatim>\<open>dear custome\<close>, and \<^verbatim>\<open>dear custome\<close> itself does not contain
  \<^verbatim>\<open>dear customer\<close>.
\<close>

theorem dear_custome_suppressed:
  "(1 \<le> length b \<and> length b \<le> 256 \<and> sublist ''dear custome'' (toLowerCase b)
      \<longrightarrow> shouldSendAutoReply RegExp_test b = False)
   \<and> (search True (source (last validations)) (toLowerCase b)
        \<longleftrightarrow> sublist ''dear custome'' (toLowerCase b))
   \<and> (sublist ''dear customer'' l \<longrightarrow> sublist ''dear custome'' l)
   \<and> sublist ''dear custome'' ''dear custome'' \<and> \<not> sublist ''dear customer'' ''dear custome''"
proof -
  have l: "\<forall>c\<in>set (toLowerCase b). \<not> asciiCapital c"
    using toLowerCase_not_capital by blast
  have 1: "search True (source (last validations)) (toLowerCase b)
             \<longleftrightarrow> sublist ''dear custome'' (toLowerCase b)"
    unfolding validations_def
    using search_literal [OF l no_capital_in_patterns(9), of "[Star (Chr CHR ''r'')]"]
    by (simp add: match_here_star_only)
  have 2: "sublist ''dear customer'' l \<longrightarrow> sublist ''dear custome'' l"
    using sublist_order.dual_order.trans [OF _ sublist_append_rightI [of "''dear custome''" "''r''"]]
    by auto
  have 3: "\<not> sublist ''dear customer'' ''dear custome''"
    using sublist_length_le [of "''dear customer''" "''dear custome''"] by auto
  show ?thesis
    using 1 2 3 unfolding shouldSendAutoReply_iff matchAnyRegex_validations by auto
qed

theorem dear_custome_suppressed_witness:
  "1 \<le> length ''Dear custome, hello'' \<and> length ''Dear custome, hello'' \<le> 256
   \<and> sublist ''dear custome'' (toLowerCase ''Dear custome, hello'')
   \<and> \<not> sublist ''dear customer'' (toLowerCase ''Dear custome, hello'')
   \<and> shouldSendAutoReply RegExp_test ''Dear custome, hello'' = False"
proof -
  have a: "sublist ''dear custome'' (toLowerCase ''Dear custome, hello'')" by code_simp
  have b: "\<not> sublist ''dear customer'' (toLowerCase ''Dear custome, hello'')" by code_simp
  have c: "1 \<le> length ''Dear custome, hello'' \<and> length ''Dear custome, hello'' \<le> 256" by simp
  from a c dear_custome_suppressed [of "''Dear custome, hello''" "[]"]
  have "shouldSendAutoReply RegExp_test ''Dear custome, hello'' = False" by blast
  with a b c show ?thesis by blast
qed

section \<open>Properties of the inbound-message handler\<close>

text \<open>
  C8. The sanitised body is the raw body without the nine characters slash, backslash,
  square brackets, angle brackets, parentheses and asterisk, all others kept in their
  order. For a text message, the
  decision is taken on the sanitised body and the logger entry carries the sanitised
  body; the raw body is used nowhere else, and the messages sent carry no part of it.
\<close>

theorem sanitised_before_use:
  "blacklist raw blacklisted = filter (\<lambda>c. c \<notin> removedChars) raw
   \<and> (contacts b = Some (contact0 # cs) \<and> messages b = Some (m # ms)
        \<and> msg_type m = text_type \<and> msg_text m = Some raw
      \<longrightarrow> parseUserMessageWebhook test env b clientId =
            (None,
             if shouldSendAutoReply test (filter (\<lambda>c. c \<notin> removedChars) raw)
             then logger_info ''Sending auto reply'' (wa_id contact0) (msg_id m)
                    (filter (\<lambda>c. c \<notin> removedChars) raw)
                  # sendAutoReply env (wa_id contact0) clientId
             else []))"
proof (intro conjI impI)
  show "blacklist raw blacklisted = filter (\<lambda>c. c \<notin> removedChars) raw"
    by (rule blacklist_filter)
next
  assume "contacts b = Some (contact0 # cs) \<and> messages b = Some (m # ms)
        \<and> msg_type m = text_type \<and> msg_text m = Some raw"
  then show "parseUserMessageWebhook test env b clientId =
            (None,
             if shouldSendAutoReply test (filter (\<lambda>c. c \<notin> removedChars) raw)
             then logger_info ''Sending auto reply'' (wa_id contact0) (msg_id m)
                    (filter (\<lambda>c. c \<notin> removedChars) raw)
                  # sendAutoReply env (wa_id contact0) clientId
             else [])"
    unfolding parseUserMessageWebhook_def blacklist_filter by (simp add: Let_def)
qed

theorem sanitised_before_use_witness:
  "contacts (message_body ''<b>Hi</b> (there)*'') = Some [contact1]
   \<and> messages (message_body ''<b>Hi</b> (there)*'') = Some [text_message ''<b>Hi</b> (there)*'']
   \<and> msg_type (text_message ''<b>Hi</b> (there)*'') = text_type
   \<and> msg_text (text_message ''<b>Hi</b> (there)*'') = Some ''<b>Hi</b> (there)*''
   \<and> blacklist ''<b>Hi</b> (there)*'' blacklisted = ''bHib there''
   \<and> parseUserMessageWebhook RegExp_test ''production'' (message_body ''<b>Hi</b> (there)*'') ''c1''
       = (None, [logger_info ''Sending auto reply'' ''6591234567'' ''w1'' ''bHib there'',
                 sendTextMessage \<lparr>recipient = ''6591234567'', apiClient = ''c1'',
                   text_body = acknowledgement\<rparr>])"
proof -
  let ?raw = "''<b>Hi</b> (there)*''"
  have f: "filter (\<lambda>c. c \<notin> removedChars) ?raw = ''bHib there''"
    by (simp add: removedChars_def backslash_def)
  have s: "shouldSendAutoReply RegExp_test ''bHib there''" by code_simp
  have h: "contacts (message_body ?raw) = Some (contact1 # [])
      \<and> messages (message_body ?raw) = Some (text_message ?raw # [])
      \<and> msg_type (text_message ?raw) = text_type \<and> msg_text (text_message ?raw) = Some ?raw"
    by (simp add: message_body_def text_message_def)
  from sanitised_before_use [of ?raw "message_body ?raw" contact1 "[]" "text_message ?raw" "[]"
      RegExp_test "''production''" "''c1''"] h
  have "blacklist ?raw blacklisted = filter (\<lambda>c. c \<notin> removedChars) ?raw"
    and "parseUserMessageWebhook RegExp_test ''production'' (message_body ?raw) ''c1'' =
            (None,
             if shouldSendAutoReply RegExp_test (filter (\<lambda>c. c \<notin> removedChars) ?raw)
             then logger_info ''Sending auto reply'' (wa_id contact1) (msg_id (text_message ?raw))
                    (filter (\<lambda>c. c \<notin> removedChars) ?raw)
                  # sendAutoReply ''production'' (wa_id contact1) ''c1''
             else [])"
    by blast+
  then show ?thesis
    using h unfolding f by (simp add: s sendAutoReply_def contact1_def text_message_def)
qed

text \<open>
  C7, as the claim states it, fails: in the mode \<^verbatim>\<open>staging\<close>, which is not
  production, a qualifying text message is answered with the free-text acknowledgement,
  not with the template.
\<close>

theorem auto_reply_staging_counterexample:
  "''staging'' \<noteq> ''production''
   \<and> shouldSendAutoReply RegExp_test (blacklist ''hello'' blacklisted)
   \<and> parseUserMessageWebhook RegExp_test ''staging'' (message_body ''hello'') ''c1''
       = (None, [logger_info ''Sending auto reply'' ''6591234567'' ''w1'' ''hello'',
                 sendTextMessage \<lparr>recipient = ''6591234567'', apiClient = ''c1'',
                   text_body = acknowledgement\<rparr>])"
proof -
  have f: "blacklist ''hello'' blacklisted = ''hello''"
    by (simp add: blacklist_filter removedChars_def backslash_def)
  have s: "shouldSendAutoReply RegExp_test ''hello''" by code_simp
  show ?thesis
    by (simp add: f s parseUserMessageWebhook_def message_body_def text_message_def contact1_def
          sendAutoReply_def Let_def)
qed

text \<open>
  C7, amended. For a qualifying inbound text message (sanitised body not empty, at most
  256 characters, no pattern matching its lower-cased form), the handler returns normally
  and makes exactly one outbound call, to the \<^verbatim>\<open>wa_id\<close> of the first contact: the
  template message \<^verbatim>\<open>2019covid19_ack\<close> without parameters, in English, when
  \<^verbatim>\<open>config.get('env')\<close> is \<^verbatim>\<open>development\<close>, and the fixed free-text
  acknowledgement in every other mode, production among them.
\<close>

theorem auto_reply_sent:
  assumes "contacts b = Some (contact0 # cs)" and "messages b = Some (m # ms)"
    and "msg_type m = text_type" and "msg_text m = Some raw"
    and "s = blacklist raw blacklisted"
    and "s \<noteq> []" and "length s \<le> 256"
    and "\<not> matchAnyRegex RegExp_test (toLowerCase s) validations"
  shows "parseUserMessageWebhook RegExp_test env b clientId =
           (None,
            [logger_info ''Sending auto reply'' (wa_id contact0) (msg_id m) s,
             if env = ''development''
             then sendTemplateMessage
                    \<lparr>recipient = wa_id contact0, apiClient = clientId,
                     templateName = ''2019covid19_ack'', params = [], language = english\<rparr> True
             else sendTextMessage
                    \<lparr>recipient = wa_id contact0, apiClient = clientId,
                     text_body = acknowledgement\<rparr>])
         \<and> length (filter outbound (snd (parseUserMessageWebhook RegExp_test env b clientId))) = 1"
  using assms
  by (simp add: parseUserMessageWebhook_def Let_def shouldSendAutoReply_iff sendAutoReply_def)

theorem auto_reply_sent_witness:
  "contacts (message_body ''When will I receive my results?'') = Some [contact1]
   \<and> messages (message_body ''When will I receive my results?'')
       = Some [text_message ''When will I receive my results?'']
   \<and> blacklist ''When will I receive my results?'' blacklisted = ''When will I receive my results?''
   \<and> \<not> matchAnyRegex RegExp_test (toLowerCase ''When will I receive my results?'') validations
   \<and> parseUserMessageWebhook RegExp_test ''development''
         (message_body ''When will I receive my results?'') ''c1''
       = (None, [logger_info ''Sending auto reply'' ''6591234567'' ''w1''
                   ''When will I receive my results?'',
                 sendTemplateMessage \<lparr>recipient = ''6591234567'', apiClient = ''c1'',
                   templateName = ''2019covid19_ack'', params = [], language = english\<rparr> True])"
proof -
  let ?raw = "''When will I receive my results?''"
  have c: "contacts (message_body ?raw) = Some (contact1 # [])"
    and m: "messages (message_body ?raw) = Some (text_message ?raw # [])"
    and t: "msg_type (text_message ?raw) = text_type"
    and x: "msg_text (text_message ?raw) = Some ?raw"
    by (simp_all add: message_body_def text_message_def)
  have f: "?raw = blacklist ?raw blacklisted"
    by (simp add: blacklist_filter removedChars_def backslash_def)
  have n: "\<not> matchAnyRegex RegExp_test (toLowerCase ?raw) validations" by code_simp
  from auto_reply_sent [OF c m t x f _ _ n, of "''development''" "''c1''"]
  have "parseUserMessageWebhook RegExp_test ''development'' (message_body ?raw) ''c1'' =
           (None,
            [logger_info ''Sending auto reply'' (wa_id contact1) (msg_id (text_message ?raw)) ?raw,
             sendTemplateMessage
                    \<lparr>recipient = wa_id contact1, apiClient = ''c1'',
                     templateName = ''2019covid19_ack'', params = [], language = english\<rparr> True])"
    by simp
  then show ?thesis
    using c m f [symmetric] n by (simp add: contact1_def text_message_def)
qed

section \<open>Properties of the dispatcher\<close>

lemma parseTemplateMessageWebhook_first:
  "statuses b = Some (st # rest) \<Longrightarrow>
     parseTemplateMessageWebhook mapper now b gm gmt =
     parseTemplateMessageWebhook mapper now (b\<lparr>statuses := Some [st]\<rparr>) gm gmt"
  by (simp add: parseTemplateMessageWebhook_def cong: WhatsAppMessageStatus.case_cong if_cong)

lemma parseUserMessageWebhook_first:
  "messages b = Some (m # ms) \<Longrightarrow> contacts b = Some (contact0 # cs) \<Longrightarrow>
     parseUserMessageWebhook test env b clientId =
     parseUserMessageWebhook test env (b\<lparr>messages := Some [m], contacts := Some [contact0]\<rparr>)
       clientId"
  by (simp add: parseUserMessageWebhook_def)

text \<open>
  C3, as the claim states it, fails: a body with \<^verbatim>\<open>messages\<close> and
  \<^verbatim>\<open>contacts\<close> that also has \<^verbatim>\<open>statuses\<close>. The inbound-message handler would
  send the acknowledgement; the dispatcher calls the status handler, which updates the
  row, and nothing is sent.
\<close>

theorem parseWebhook_statuses_first_counterexample:
  "messages mixed_body = Some [text_message ''hello''] \<and> contacts mixed_body = Some [contact1]
   \<and> parseUserMessageWebhook RegExp_test ''production'' mixed_body ''c1''
       = (None, [logger_info ''Sending auto reply'' ''6591234567'' ''w1'' ''hello'',
                 sendTextMessage \<lparr>recipient = ''6591234567'', apiClient = ''c1'',
                   text_body = acknowledgement\<rparr>])
   \<and> parseWebhook RegExp_test ''production'' id 7 (JObject mixed_body) ''c1'' one_row no_rows
       = (None, one_row(''m1'' \<mapsto> row0\<lparr>status := delivered, deliveredAt := Some 7\<rparr>),
          no_rows, [])"
proof -
  have f: "blacklist ''hello'' blacklisted = ''hello''"
    by (simp add: blacklist_filter removedChars_def backslash_def)
  have s: "shouldSendAutoReply RegExp_test ''hello''" by code_simp
  show ?thesis
    by (simp add: f s parseWebhook_def parseUserMessageWebhook_def
          parseTemplateMessageWebhook_def mixed_body_def text_message_def contact1_def
          sendAutoReply_def Let_def one_row_def no_rows_def findOne_def update_def)
qed

text \<open>
  C3, amended. A payload that is falsy or not an object fails with
  \<^verbatim>\<open>UnexpectedWebhookError\<close> (the malformed-webhook error of the spec). An object
  with the key \<^verbatim>\<open>statuses\<close>, whatever else it has, goes to the status handler, which
  looks at the first status only. An object without \<^verbatim>\<open>statuses\<close> and with both
  \<^verbatim>\<open>messages\<close> and \<^verbatim>\<open>contacts\<close> goes to the inbound-message handler, which
  looks at the first message and the first contact only. An object without
  \<^verbatim>\<open>statuses\<close> that lacks \<^verbatim>\<open>messages\<close> or \<^verbatim>\<open>contacts\<close> fails with
  \<^verbatim>\<open>UnexpectedWebhookError\<close>.
\<close>

theorem parseWebhook_routes:
  "(falsy p \<or> typeof p \<noteq> ''object'' \<longrightarrow>
      parseWebhook test env mapper now p clientId gm gmt =
        (Some (UnexpectedWebhookError ''Unexpected webhook body''), gm, gmt, []))
   \<and> (statuses b = Some (st # rest) \<longrightarrow>
      parseWebhook test env mapper now (JObject b) clientId gm gmt =
        (case parseTemplateMessageWebhook mapper now (b\<lparr>statuses := Some [st]\<rparr>) gm gmt of
           (err, gm', gmt') \<Rightarrow> (err, gm', gmt', [])))
   \<and> (statuses b = None \<and> messages b = Some (m # ms) \<and> contacts b = Some (contact0 # cs) \<longrightarrow>
      parseWebhook test env mapper now (JObject b) clientId gm gmt =
        (case parseUserMessageWebhook test env
                (b\<lparr>messages := Some [m], contacts := Some [contact0]\<rparr>) clientId of
           (err, calls) \<Rightarrow> (err, gm, gmt, calls)))
   \<and> (statuses b = None \<and> (messages b = None \<or> contacts b = None) \<longrightarrow>
      parseWebhook test env mapper now (JObject b) clientId gm gmt =
        (Some (UnexpectedWebhookError ''Unexpected webhook body''), gm, gmt, []))"
proof (intro conjI impI)
  assume "falsy p \<or> typeof p \<noteq> ''object''"
  then show "parseWebhook test env mapper now p clientId gm gmt =
        (Some (UnexpectedWebhookError ''Unexpected webhook body''), gm, gmt, [])"
    by (simp add: parseWebhook_def)
next
  assume s: "statuses b = Some (st # rest)"
  show "parseWebhook test env mapper now (JObject b) clientId gm gmt =
        (case parseTemplateMessageWebhook mapper now (b\<lparr>statuses := Some [st]\<rparr>) gm gmt of
           (err, gm', gmt') \<Rightarrow> (err, gm', gmt', []))"
    unfolding parseTemplateMessageWebhook_first [OF s, symmetric]
    using s by (simp add: parseWebhook_def)
next
  assume a: "statuses b = None \<and> messages b = Some (m # ms) \<and> contacts b = Some (contact0 # cs)"
  then have m: "messages b = Some (m # ms)" and c: "contacts b = Some (contact0 # cs)"
    by simp_all
  show "parseWebhook test env mapper now (JObject b) clientId gm gmt =
        (case parseUserMessageWebhook test env
                (b\<lparr>messages := Some [m], contacts := Some [contact0]\<rparr>) clientId of
           (err, calls) \<Rightarrow> (err, gm, gmt, calls))"
    unfolding parseUserMessageWebhook_first [OF m c, symmetric]
    using a by (simp add: parseWebhook_def)
next
  assume "statuses b = None \<and> (messages b = None \<or> contacts b = None)"
  then show "parseWebhook test env mapper now (JObject b) clientId gm gmt =
        (Some (UnexpectedWebhookError ''Unexpected webhook body''), gm, gmt, [])"
    by (auto simp add: parseWebhook_def)
qed

theorem parseWebhook_routes_witness:
  "falsy JNull
   \<and> parseWebhook RegExp_test ''production'' id 7 JNull ''c1'' one_row no_rows
       = (Some (UnexpectedWebhookError ''Unexpected webhook body''), one_row, no_rows, [])
   \<and> statuses (status_body delivered None None)
       = Some [\<lparr>st_id = ''m1'', st_status = delivered, st_errors = None\<rparr>]
   \<and> parseWebhook RegExp_test ''production'' id 7 (JObject (status_body delivered None None))
         ''c1'' one_row no_rows
       = (None, one_row(''m1'' \<mapsto> row0\<lparr>status := delivered, deliveredAt := Some 7\<rparr>),
          no_rows, [])
   \<and> statuses (message_body ''hello'') = None
   \<and> messages (message_body ''hello'') = Some [text_message ''hello'']
   \<and> contacts (message_body ''hello'') = Some [contact1]
   \<and> parseWebhook RegExp_test ''production'' id 7 (JObject (message_body ''hello''))
         ''c1'' one_row no_rows
       = (None, one_row, no_rows,
          [logger_info ''Sending auto reply'' ''6591234567'' ''w1'' ''hello'',
           sendTextMessage \<lparr>recipient = ''6591234567'', apiClient = ''c1'',
             text_body = acknowledgement\<rparr>])
   \<and> statuses (message_body ''hello''\<lparr>contacts := None\<rparr>) = None
   \<and> contacts (message_body ''hello''\<lparr>contacts := None\<rparr>) = None
   \<and> parseWebhook RegExp_test ''production'' id 7
         (JObject (message_body ''hello''\<lparr>contacts := None\<rparr>)) ''c1'' one_row no_rows
       = (Some (UnexpectedWebhookError ''Unexpected webhook body''), one_row, no_rows, [])"
proof -
  let ?st = "\<lparr>st_id = ''m1'', st_status = delivered, st_errors = None\<rparr>"
  let ?sb = "status_body delivered None None"
  let ?mb = "message_body ''hello''"
  let ?nb = "message_body ''hello''\<lparr>contacts := None\<rparr>"
  have 1: "falsy JNull" by simp
  have 2: "statuses ?sb = Some (?st # [])" by (simp add: status_body_def)
  have 3: "statuses ?mb = None \<and> messages ?mb = Some (text_message ''hello'' # [])
           \<and> contacts ?mb = Some (contact1 # [])"
    by (simp add: message_body_def)
  have 4: "statuses ?nb = None \<and> (messages ?nb = None \<or> contacts ?nb = None)"
    by (simp add: message_body_def)
  have f: "blacklist ''hello'' blacklisted = ''hello''"
    by (simp add: blacklist_filter removedChars_def backslash_def)
  have s: "shouldSendAutoReply RegExp_test ''hello''" by code_simp
  have t: "parseTemplateMessageWebhook id 7 (?sb\<lparr>statuses := Some [?st]\<rparr>) one_row no_rows
        = (None, one_row(''m1'' \<mapsto> row0\<lparr>status := delivered, deliveredAt := Some 7\<rparr>), no_rows)"
    by (simp add: parseTemplateMessageWebhook_def status_body_def one_row_def no_rows_def
          findOne_def update_def)
  have u: "parseUserMessageWebhook RegExp_test ''production''
             (?mb\<lparr>messages := Some [text_message ''hello''], contacts := Some [contact1]\<rparr>) ''c1''
        = (None, [logger_info ''Sending auto reply'' ''6591234567'' ''w1'' ''hello'',
                  sendTextMessage \<lparr>recipient = ''6591234567'', apiClient = ''c1'',
                    text_body = acknowledgement\<rparr>])"
    by (simp add: f s parseUserMessageWebhook_def message_body_def text_message_def contact1_def
          sendAutoReply_def Let_def)
  note r = parseWebhook_routes [where test = RegExp_test and env = "''production''"
      and mapper = id and now = 7 and clientId = "''c1''" and gm = one_row and gmt = no_rows]
  from r [where p = JNull and b = ?sb and st = ?st and rest = "[]"] 1 2
  have a: "parseWebhook RegExp_test ''production'' id 7 JNull ''c1'' one_row no_rows
       = (Some (UnexpectedWebhookError ''Unexpected webhook body''), one_row, no_rows, [])"
    and b: "parseWebhook RegExp_test ''production'' id 7 (JObject ?sb) ''c1'' one_row no_rows
       = (None, one_row(''m1'' \<mapsto> row0\<lparr>status := delivered, deliveredAt := Some 7\<rparr>),
          no_rows, [])"
    unfolding t by simp_all
  from r [where b = ?mb and m = "text_message ''hello''" and ms = "[]" and ?contact0.0 = contact1
      and cs = "[]"] 3
  have c: "parseWebhook RegExp_test ''production'' id 7 (JObject ?mb) ''c1'' one_row no_rows
       = (None, one_row, no_rows,
          [logger_info ''Sending auto reply'' ''6591234567'' ''w1'' ''hello'',
           sendTextMessage \<lparr>recipient = ''6591234567'', apiClient = ''c1'',
             text_body = acknowledgement\<rparr>])"
    unfolding u by simp
  from r [where b = ?nb] 4
  have d: "parseWebhook RegExp_test ''production'' id 7 (JObject ?nb) ''c1'' one_row no_rows
       = (Some (UnexpectedWebhookError ''Unexpected webhook body''), one_row, no_rows, [])"
    by blast
  from 1 2 3 4 a b c d show ?thesis by simp
qed

end
